theory Spec2Isabelle
  imports Main
begin

section \<open>Python values and strings\<close>

text \<open>
  The program is \<^verbatim>\<open>src/main.py\<close>: a Streamlit page that reads the catalogue of a
  PostgreSQL database (\<^verbatim>\<open>get_db_schema\<close>), asks a hosted model for a SQL statement
  (\<^verbatim>\<open>get_generated_sql\<close>), runs it (\<^verbatim>\<open>execute_query\<close>) and shows the outcome
  (\<^verbatim>\<open>display_results\<close>, \<^verbatim>\<open>main\<close>).

  A Python \<^verbatim>\<open>str\<close> is a \<^typ>\<open>string\<close>; one \<^typ>\<open>char\<close> stands for one code point
  below 256. An exception is an instance of \<^verbatim>\<open>Exception\<close>, the class every handler of
  the program catches, and carries the text that \<^verbatim>\<open>str(e)\<close> and \<^verbatim>\<open>f"{e}"\<close> give.
\<close>

datatype exn = Exception (str: string)

text \<open>A row that a cursor returns: the tuple of its column values.\<close>

type_synonym row = "string list"

text \<open>A pandas \<^verbatim>\<open>DataFrame\<close>: named columns and rows; \<^verbatim>\<open>len\<close> counts the rows.\<close>

record dataframe =
  df_columns :: "string list"
  df_rows :: "row list"

text \<open>The second component of what \<^verbatim>\<open>execute_query\<close> returns, and what the page shows.\<close>

datatype pyval = Str string | DataFrame dataframe

text \<open>The model's response; reading \<^verbatim>\<open>response.text\<close> may raise.\<close>

datatype response = Response (response_text: "exn + string")

text \<open>\<^verbatim>\<open>sep.join(xs)\<close>\<close>

fun join :: "string \<Rightarrow> string list \<Rightarrow> string" where
  "join sep [] = []"
| "join sep [x] = x"
| "join sep (x # y # ys) = x @ sep @ join sep (y # ys)"

text \<open>
  \<^verbatim>\<open>str.isspace\<close> on one code point below 256: tab, line feed, vertical tab, form feed,
  carriage return, the four separators 28 to 31, space, next line (133) and no-break
  space (160).
\<close>

definition py_isspace :: "char \<Rightarrow> bool" where
  "py_isspace c = (of_char c \<in> {9, 10, 11, 12, 13, 28, 29, 30, 31, 32, 133, 160 :: nat})"

text \<open>\<^verbatim>\<open>s.strip()\<close>\<close>

definition strip :: "string \<Rightarrow> string" where
  "strip s = rev (dropWhile py_isspace (rev (dropWhile py_isspace s)))"

text \<open>\<^verbatim>\<open>s.startswith(p)\<close>\<close>

definition startswith :: "string \<Rightarrow> string \<Rightarrow> bool" where
  "startswith s p = (take (length p) s = p)"

text \<open>\<^verbatim>\<open>str(n)\<close> for a length: the decimal digits.\<close>

fun str_nat :: "nat \<Rightarrow> string" where
  "str_nat n =
     (if n < 10 then [char_of (48 + n)]
      else str_nat (n div 10) @ [char_of (48 + n mod 10)])"

section \<open>The outside world and the state of a run\<close>

text \<open>
  What the database driver, pandas and the model client answer. Each field is the
  outcome of one call of the program:
  \<^item> \<open>connect_result\<close>: \<^verbatim>\<open>psycopg2.connect(**DB_PARAMS)\<close> raises this, or connects;
  \<^item> \<open>cursor_result\<close>: \<^verbatim>\<open>conn.cursor()\<close>;
  \<^item> \<open>execute_result q\<close>: \<^verbatim>\<open>cursor.execute(q)\<close>;
  \<^item> \<open>fetchall_result q\<close>: \<^verbatim>\<open>cursor.fetchall()\<close> after \<open>q\<close> was executed;
  \<^item> \<open>close_result\<close>: \<^verbatim>\<open>conn.close()\<close>;
  \<^item> \<open>read_sql_query_result q\<close>: \<^verbatim>\<open>pd.read_sql_query(q, conn)\<close>;
  \<^item> \<open>model\<close>: the global \<^verbatim>\<open>model\<close>, unbound when the configuration at import failed;
    applied to a prompt it is \<^verbatim>\<open>model.generate_content(prompt)\<close>;
  \<^item> \<open>to_csv\<close>: \<^verbatim>\<open>results.to_csv(index=False)\<close>.
  A fixed world is a database whose contents do not change.
\<close>

record world =
  connect_result :: "exn option"
  cursor_result :: "exn option"
  execute_result :: "string \<Rightarrow> exn option"
  fetchall_result :: "string \<Rightarrow> exn + row list"
  close_result :: "exn option"
  read_sql_query_result :: "string \<Rightarrow> exn + dataframe"
  model :: "(string \<Rightarrow> exn + response) option"
  to_csv :: "dataframe \<Rightarrow> string"

text \<open>The calls that leave the program, in the order they are made.\<close>

datatype event =
    Connect
  | Cursor
  | Execute string
  | Fetchall
  | Close
  | ReadSqlQuery string
  | GenerateContent string
  | LoggerError string
  | StSpinner string
  | StExpander string
  | StCode string
  | StError pyval
  | StInfo string
  | StSuccess string
  | StDataframe pyval
  | StDownloadButton string

text \<open>
  The state of a run: the connections that are open (each connection gets the next free
  handle), and the calls made so far.
\<close>

record state =
  next_conn :: nat
  open_conns :: "nat set"
  trace :: "event list"

text \<open>
  A statement or expression of the program: it reads the state and either raises
  (\<open>Inl\<close>) or returns a value (\<open>Inr\<close>), with the state it leaves.
\<close>

type_synonym 'a py = "state \<Rightarrow> (exn + 'a) \<times> state"

definition py_return :: "'a \<Rightarrow> 'a py" where
  "py_return x s = (Inr x, s)"

definition py_raise :: "exn \<Rightarrow> 'a py" where
  "py_raise e s = (Inl e, s)"

text \<open>One statement after another: an exception of the first skips the second.\<close>

definition py_bind :: "'a py \<Rightarrow> ('a \<Rightarrow> 'b py) \<Rightarrow> 'b py" where
  "py_bind m f s = (case m s of (Inl e, s') \<Rightarrow> (Inl e, s') | (Inr x, s') \<Rightarrow> f x s')"

text \<open>\<^verbatim>\<open>try: m  except Exception as e: h\<close>\<close>

definition py_try :: "'a py \<Rightarrow> (exn \<Rightarrow> 'a py) \<Rightarrow> 'a py" where
  "py_try m h s = (case m s of (Inl e, s') \<Rightarrow> h e s' | (Inr x, s') \<Rightarrow> (Inr x, s'))"

definition emit :: "event \<Rightarrow> unit py" where
  "emit ev s = (Inr (), s\<lparr>trace := trace s @ [ev]\<rparr>)"

text \<open>\<^verbatim>\<open>t[i]\<close> on a tuple\<close>

definition getitem :: "'a list \<Rightarrow> nat \<Rightarrow> 'a py" where
  "getitem t i =
     (if i < length t then py_return (t ! i)
      else py_raise (Exception ''tuple index out of range''))"

subsection \<open>The calls\<close>

definition psycopg2_connect :: "world \<Rightarrow> nat py" where
  "psycopg2_connect w =
     py_bind (emit Connect) (\<lambda>_. (\<lambda>s.
       case connect_result w of
         Some e \<Rightarrow> (Inl e, s)
       | None \<Rightarrow>
           (Inr (next_conn s),
            s\<lparr>next_conn := Suc (next_conn s),
              open_conns := insert (next_conn s) (open_conns s)\<rparr>)))"

definition conn_cursor :: "world \<Rightarrow> nat \<Rightarrow> unit py" where
  "conn_cursor w conn =
     py_bind (emit Cursor) (\<lambda>_.
       case cursor_result w of Some e \<Rightarrow> py_raise e | None \<Rightarrow> py_return ())"

definition cursor_execute :: "world \<Rightarrow> string \<Rightarrow> unit py" where
  "cursor_execute w q =
     py_bind (emit (Execute q)) (\<lambda>_.
       case execute_result w q of Some e \<Rightarrow> py_raise e | None \<Rightarrow> py_return ())"

definition cursor_fetchall :: "world \<Rightarrow> string \<Rightarrow> row list py" where
  "cursor_fetchall w q =
     py_bind (emit Fetchall) (\<lambda>_.
       case fetchall_result w q of Inl e \<Rightarrow> py_raise e | Inr rows \<Rightarrow> py_return rows)"

text \<open>A \<^verbatim>\<open>conn.close()\<close> that raises leaves the connection as it was.\<close>

definition conn_close :: "world \<Rightarrow> nat \<Rightarrow> unit py" where
  "conn_close w conn =
     py_bind (emit Close) (\<lambda>_. (\<lambda>s.
       case close_result w of
         Some e \<Rightarrow> (Inl e, s)
       | None \<Rightarrow> (Inr (), s\<lparr>open_conns := open_conns s - {conn}\<rparr>)))"

definition pd_read_sql_query :: "world \<Rightarrow> string \<Rightarrow> nat \<Rightarrow> dataframe py" where
  "pd_read_sql_query w q conn =
     py_bind (emit (ReadSqlQuery q)) (\<lambda>_.
       case read_sql_query_result w q of Inl e \<Rightarrow> py_raise e | Inr df \<Rightarrow> py_return df)"

text \<open>
  \<^verbatim>\<open>model.generate_content(prompt)\<close>: the name \<^verbatim>\<open>model\<close> is looked up first, which is
  a \<^verbatim>\<open>NameError\<close> when the configuration at import failed.
\<close>

definition model_generate_content :: "world \<Rightarrow> string \<Rightarrow> response py" where
  "model_generate_content w prompt =
     (case model w of
        None \<Rightarrow> py_raise (Exception (''name '' @ [CHR 0x27] @ ''model'' @ [CHR 0x27] @ '' is not defined''))
      | Some generate_content \<Rightarrow>
          py_bind (emit (GenerateContent prompt)) (\<lambda>_.
            case generate_content prompt of Inl e \<Rightarrow> py_raise e | Inr r \<Rightarrow> py_return r))"

definition get_text :: "response \<Rightarrow> string py" where
  "get_text r = (case response_text r of Inl e \<Rightarrow> py_raise e | Inr t \<Rightarrow> py_return t)"

definition logger_error :: "string \<Rightarrow> unit py" where
  "logger_error msg = emit (LoggerError msg)"

section \<open>The program\<close>

subsection \<open>\<^verbatim>\<open>get_db_schema\<close>\<close>

text \<open>The text of the first catalogue query, the triple-quoted string of the source.\<close>

definition tables_sql :: string where
  "tables_sql =
     ''\<newline>'' @
     ''            SELECT table_name \<newline>'' @
     ''            FROM information_schema.tables \<newline>'' @
     ''            WHERE table_schema = '' @ [CHR 0x27] @ ''public'' @ [CHR 0x27] @ ''\<newline>'' @
     ''        ''"

text \<open>The f-string of the second catalogue query, with the table's name pasted in.\<close>

definition columns_sql :: "string \<Rightarrow> string" where
  "columns_sql table_name =
     ''\<newline>'' @
     ''                SELECT column_name, data_type \<newline>'' @
     ''                FROM information_schema.columns \<newline>'' @
     ''                WHERE table_schema = '' @ [CHR 0x27] @ ''public'' @ [CHR 0x27] @
     '' AND table_name = '' @ [CHR 0x27] @ table_name @ [CHR 0x27] @ ''\<newline>'' @
     ''            ''"

text \<open>\<^verbatim>\<open>[f"{col[0]} ({col[1]})" for col in columns]\<close>\<close>

fun column_info :: "row list \<Rightarrow> string list py" where
  "column_info [] = py_return []"
| "column_info (col # columns) =
     py_bind (getitem col 0) (\<lambda>c0.
     py_bind (getitem col 1) (\<lambda>c1.
     py_bind (column_info columns) (\<lambda>rest.
     py_return ((c0 @ '' ('' @ c1 @ '')'') # rest))))"

text \<open>
  The loop \<^verbatim>\<open>for table in tables\<close>, with the list \<^verbatim>\<open>schema_info\<close> it appends to.
\<close>

fun for_table :: "world \<Rightarrow> row list \<Rightarrow> string list \<Rightarrow> string list py" where
  "for_table w [] schema_info = py_return schema_info"
| "for_table w (table # tables) schema_info =
     py_bind (getitem table 0) (\<lambda>table_name.
     py_bind (cursor_execute w (columns_sql table_name)) (\<lambda>_.
     py_bind (cursor_fetchall w (columns_sql table_name)) (\<lambda>columns.
     py_bind (column_info columns) (\<lambda>info.
     for_table w tables
       (schema_info @
        [''Table: '' @ table_name @ ''\<newline>Columns: '' @ join '', '' info])))))"

definition get_db_schema :: "world \<Rightarrow> string py" where
  "get_db_schema w =
     py_try
       (py_bind (psycopg2_connect w) (\<lambda>conn.
        py_bind (conn_cursor w conn) (\<lambda>_.
        py_bind (cursor_execute w tables_sql) (\<lambda>_.
        py_bind (cursor_fetchall w tables_sql) (\<lambda>tables.
        py_bind (for_table w tables []) (\<lambda>schema_info.
        py_bind (conn_close w conn) (\<lambda>_.
        py_return (join ''\<newline>\<newline>'' schema_info))))))))
       (\<lambda>e.
        py_bind (logger_error (''Failed to fetch database schema: '' @ str e)) (\<lambda>_.
        py_return ''Error fetching schema''))"

subsection \<open>\<^verbatim>\<open>get_generated_sql\<close>\<close>

text \<open>
  The prompt is the f-string of the source: its three literal parts, with the schema and
  the question pasted in between.
\<close>

definition prompt_head :: string where
  "prompt_head =
     ''\<newline>'' @
     ''        You are a specialized SQL query generator. Convert the following natural language question into a valid PostgreSQL SQL query.\<newline>'' @
     ''        \<newline>'' @
     ''        Database Schema:\<newline>'' @
     ''        ''"

definition prompt_middle :: string where
  "prompt_middle =
     ''\<newline>'' @
     ''        \<newline>'' @
     ''        Natural Language Question:\<newline>'' @
     ''        ''"

definition prompt_tail :: string where
  "prompt_tail =
     ''\<newline>'' @
     ''        \<newline>'' @
     ''        Rules:\<newline>'' @
     ''        1. Generate ONLY the SQL query without any additional text, explanations, or markdown.\<newline>'' @
     ''        2. Ensure the query is valid PostgreSQL syntax.\<newline>'' @
     ''        3. Use JOINs where appropriate when querying multiple tables.\<newline>'' @
     ''        4. Use column names exactly as they appear in the schema.\<newline>'' @
     ''        5. Keep the query efficient and focused on answering the specific question.\<newline>'' @
     ''        6. When appropriate, include ORDER BY, GROUP BY, or LIMIT clauses to make the results more useful.\<newline>'' @
     ''        7. Do not include any SQL comments in the query.\<newline>'' @
     ''        \<newline>'' @
     ''        SQL Query:\<newline>'' @
     ''        ''"

definition prompt_of :: "string \<Rightarrow> string \<Rightarrow> string" where
  "prompt_of schema natural_language_query =
     prompt_head @ schema @ prompt_middle @ natural_language_query @ prompt_tail"

definition get_generated_sql :: "world \<Rightarrow> string \<Rightarrow> string py" where
  "get_generated_sql w natural_language_query =
     py_try
       (py_bind (get_db_schema w) (\<lambda>schema.
        py_bind (model_generate_content w (prompt_of schema natural_language_query)) (\<lambda>response.
        py_bind (get_text response) (\<lambda>t.
        py_return (strip t)))))
       (\<lambda>e.
        py_bind (logger_error (''Gemini API error: '' @ str e)) (\<lambda>_.
        py_return (''Error generating SQL: '' @ str e)))"

subsection \<open>\<^verbatim>\<open>execute_query\<close>\<close>

definition execute_query :: "world \<Rightarrow> string \<Rightarrow> (bool \<times> pyval) py" where
  "execute_query w sql_query =
     py_try
       (py_bind (psycopg2_connect w) (\<lambda>conn.
        py_bind (pd_read_sql_query w sql_query conn) (\<lambda>results.
        py_bind (conn_close w conn) (\<lambda>_.
        py_return (True, DataFrame results)))))
       (\<lambda>e.
        py_bind (logger_error (''Database error: '' @ str e)) (\<lambda>_.
        py_return (False, Str (''Error executing query: '' @ str e))))"

subsection \<open>\<^verbatim>\<open>display_results\<close>\<close>

text \<open>\<^verbatim>\<open>len(results)\<close>\<close>

fun len :: "pyval \<Rightarrow> nat" where
  "len (Str s) = length s"
| "len (DataFrame df) = length (df_rows df)"

text \<open>\<^verbatim>\<open>results.to_csv(index=False)\<close>: a \<^verbatim>\<open>str\<close> has no such method.\<close>

fun results_to_csv :: "world \<Rightarrow> pyval \<Rightarrow> string py" where
  "results_to_csv w (DataFrame df) = py_return (to_csv w df)"
| "results_to_csv w (Str s) =
     py_raise (Exception ([CHR 0x27] @ ''str'' @ [CHR 0x27] @ '' object has no attribute '' @
                          [CHR 0x27] @ ''to_csv'' @ [CHR 0x27]))"

definition display_results :: "world \<Rightarrow> bool \<Rightarrow> pyval \<Rightarrow> unit py" where
  "display_results w success results =
     (if success then
        (if len results = 0 then
           emit (StInfo ''Query executed successfully, but returned no results.'')
         else
           py_bind (emit (StSuccess (''Query returned '' @ str_nat (len results) @ '' results.''))) (\<lambda>_.
           py_bind (emit (StDataframe results)) (\<lambda>_.
           py_bind (results_to_csv w results) (\<lambda>csv.
           emit (StDownloadButton csv)))))
      else emit (StError results))"

subsection \<open>\<^verbatim>\<open>main\<close>: the block run on a submitted question\<close>

text \<open>
  The block of \<^verbatim>\<open>main\<close> under \<^verbatim>\<open>if execute_button and query\<close>; the three
  arguments are what the button, the text area and the check box returned. An empty
  \<^verbatim>\<open>query\<close> is false.
\<close>

definition main_submit :: "world \<Rightarrow> bool \<Rightarrow> string \<Rightarrow> bool \<Rightarrow> unit py" where
  "main_submit w execute_button query show_sql =
     (if execute_button \<and> query \<noteq> [] then
        py_bind (emit (StSpinner ''Generating SQL query...'')) (\<lambda>_.
        py_bind (get_generated_sql w query) (\<lambda>sql_query.
        if \<not> startswith sql_query ''Error'' then
          py_bind
            (if show_sql then
               py_bind (emit (StExpander ''Generated SQL Query'')) (\<lambda>_.
               emit (StCode sql_query))
             else py_return ()) (\<lambda>_.
          py_bind (emit (StSpinner ''Executing query...'')) (\<lambda>_.
          py_bind (execute_query w sql_query) (\<lambda>(success, results).
          display_results w success results)))
        else emit (StError (Str sql_query))))
      else py_return ())"

section \<open>The schema description, as the specification words it\<close>

text \<open>Every row of a columns query has the two values the comprehension reads.\<close>

definition columns_ok :: "row list \<Rightarrow> bool" where
  "columns_ok columns = list_all (\<lambda>col. 2 \<le> length col) columns"

text \<open>One entry of the column list: the name, then the type in brackets.\<close>

definition column_entry :: "row \<Rightarrow> string" where
  "column_entry col = col ! 0 @ '' ('' @ col ! 1 @ '')''"

text \<open>The rows the catalogue returns for the columns query of a table name.\<close>

definition catalog_columns :: "world \<Rightarrow> string \<Rightarrow> row list" where
  "catalog_columns w table_name =
     (case fetchall_result w (columns_sql table_name) of Inl e \<Rightarrow> [] | Inr columns \<Rightarrow> columns)"

text \<open>The rows the catalogue returns for the tables query.\<close>

definition catalog_tables :: "world \<Rightarrow> row list" where
  "catalog_tables w =
     (case fetchall_result w tables_sql of Inl e \<Rightarrow> [] | Inr tables \<Rightarrow> tables)"

text \<open>The block of one table: its name, and the columns of its query in the order returned.\<close>

definition table_block :: "world \<Rightarrow> row \<Rightarrow> string" where
  "table_block w table =
     ''Table: '' @ table ! 0 @ ''\<newline>Columns: '' @
     join '', '' (map column_entry (catalog_columns w (table ! 0)))"

text \<open>The description of the whole schema: the blocks of the tables, a blank line between two.\<close>

definition schema_text :: "world \<Rightarrow> string" where
  "schema_text w = join ''\<newline>\<newline>'' (map (table_block w) (catalog_tables w))"

text \<open>What one pass of the loop needs: a name in the row, and a columns query that answers
  with rows of two values.\<close>

definition table_ok :: "world \<Rightarrow> row \<Rightarrow> bool" where
  "table_ok w table =
     (0 < length table \<and>
      execute_result w (columns_sql (table ! 0)) = None \<and>
      (case fetchall_result w (columns_sql (table ! 0)) of
         Inl e \<Rightarrow> False
       | Inr columns \<Rightarrow> columns_ok columns))"

text \<open>No call that \<^verbatim>\<open>get_db_schema\<close> makes raises.\<close>

definition catalog_ok :: "world \<Rightarrow> bool" where
  "catalog_ok w =
     (connect_result w = None \<and> cursor_result w = None \<and>
      execute_result w tables_sql = None \<and>
      (case fetchall_result w tables_sql of
         Inl e \<Rightarrow> False
       | Inr tables \<Rightarrow> list_all (table_ok w) tables) \<and>
      close_result w = None)"

text \<open>
  A query raises: at \<^verbatim>\<open>cursor.execute\<close> or at \<^verbatim>\<open>cursor.fetchall\<close>.
\<close>

definition query_error :: "world \<Rightarrow> string \<Rightarrow> bool" where
  "query_error w q = (execute_result w q \<noteq> None \<or> isl (fetchall_result w q))"

text \<open>
  A connectivity or catalogue-query error: the connection is not established, no cursor
  is given, the tables query or the columns query of one of the tables raises, or the
  connection does not close.
\<close>

definition fetch_error :: "world \<Rightarrow> bool" where
  "fetch_error w =
     (connect_result w \<noteq> None \<or> cursor_result w \<noteq> None \<or> query_error w tables_sql \<or>
      list_ex (\<lambda>table. 0 < length table \<and> query_error w (columns_sql (table ! 0)))
        (catalog_tables w) \<or>
      close_result w \<noteq> None)"

section \<open>Example worlds\<close>

text \<open>A database with two tables, \<open>customers\<close> with three rows, and a model that answers.\<close>

definition shop_fetchall :: "string \<Rightarrow> exn + row list" where
  "shop_fetchall q =
     (if q = tables_sql then Inr [[''customers''], [''orders'']]
      else if q = columns_sql ''customers'' then
        Inr [[''id'', ''integer''], [''name'', ''text'']]
      else if q = columns_sql ''orders'' then
        Inr [[''id'', ''integer''], [''customer_id'', ''integer''], [''total'', ''numeric'']]
      else Inr [])"

definition customers :: dataframe where
  "customers =
     \<lparr>df_columns = [''id'', ''name''],
      df_rows = [[''1'', ''Ada''], [''2'', ''Grace''], [''3'', ''Edsger'']]\<rparr>"

definition shop :: world where
  "shop =
     \<lparr>connect_result = None,
      cursor_result = None,
      execute_result = (\<lambda>q. None),
      fetchall_result = shop_fetchall,
      close_result = None,
      read_sql_query_result =
        (\<lambda>q. if q = ''SELECT id, name FROM customers'' then Inr customers
              else Inl (Exception ''syntax error'')),
      model = Some (\<lambda>prompt. Inr (Response (Inr '' SELECT id, name FROM customers\<newline>''))),
      to_csv = (\<lambda>df. join ''\<newline>'' (map (join '','') (df_columns df # df_rows df)))\<rparr>"

text \<open>The same database, not reachable.\<close>

definition unreachable :: world where
  "unreachable = shop\<lparr>connect_result := Some (Exception ''connection refused'')\<rparr>"

text \<open>The state before the first call: no connection open, nothing called.\<close>

definition start :: state where
  "start = \<lparr>next_conn = 0, open_conns = {}, trace = []\<rparr>"

text \<open>
  What the database answers to a statement that \<^verbatim>\<open>execute_query\<close> runs: the first
  error among connecting, running the statement and closing, or else the result set.
\<close>

definition statement_result :: "world \<Rightarrow> string \<Rightarrow> exn + dataframe" where
  "statement_result w sql_query =
     (case connect_result w of
        Some e \<Rightarrow> Inl e
      | None \<Rightarrow>
          (case read_sql_query_result w sql_query of
             Inl e \<Rightarrow> Inl e
           | Inr results \<Rightarrow>
               (case close_result w of Some e \<Rightarrow> Inl e | None \<Rightarrow> Inr results)))"

text \<open>A reachable database with no table in the public schema.\<close>

definition empty_db :: world where
  "empty_db = shop\<lparr>fetchall_result := (\<lambda>q. Inr [])\<rparr>"

text \<open>The text that a call of \<^verbatim>\<open>get_db_schema\<close> hands to its caller.\<close>

definition fetched_schema :: "world \<Rightarrow> string" where
  "fetched_schema w = (if catalog_ok w then schema_text w else ''Error fetching schema'')"

text \<open>
  What \<^verbatim>\<open>model.generate_content(prompt)\<close> followed by \<^verbatim>\<open>response.text\<close> gives: the text,
  or the exception of the first of the three steps that raises.
\<close>

definition model_answer :: "world \<Rightarrow> string \<Rightarrow> exn + string" where
  "model_answer w prompt =
     (case model w of
        None \<Rightarrow>
          Inl (Exception (''name '' @ [CHR 0x27] @ ''model'' @ [CHR 0x27] @ '' is not defined''))
      | Some generate_content \<Rightarrow>
          (case generate_content prompt of Inl e \<Rightarrow> Inl e | Inr r \<Rightarrow> response_text r))"

text \<open>The requests sent to the model provider for a prompt: one, unless \<^verbatim>\<open>model\<close> is unbound.\<close>

definition model_calls :: "world \<Rightarrow> string \<Rightarrow> event list" where
  "model_calls w prompt = (case model w of None \<Rightarrow> [] | Some g \<Rightarrow> [GenerateContent prompt])"

text \<open>The shop with a model provider that refuses the request.\<close>

definition failing_model :: world where
  "failing_model = shop\<lparr>model := Some (\<lambda>prompt. Inl (Exception ''quota exceeded''))\<rparr>"

text \<open>The shop with a model that answers, with a text that starts like an error message.\<close>

definition echoing_model :: world where
  "echoing_model =
     shop\<lparr>model := Some (\<lambda>prompt. Inr (Response (Inr ''Error generating SQL: quota exceeded'')))\<rparr>"

text \<open>The shop with a catalogue that rejects every query.\<close>

definition broken_catalog :: world where
  "broken_catalog = shop\<lparr>execute_result := (\<lambda>q. Some (Exception ''permission denied''))\<rparr>"

section \<open>A model of the database server\<close>

text \<open>
  The catalogue of the public schema: its tables in the order the server lists them, each
  with its columns, name and type, in order.
\<close>

type_synonym catalogue = "(string \<times> (string \<times> string) list) list"

text \<open>
  White space between the words of a statement.
\<close>

definition sql_space :: "char \<Rightarrow> bool" where
  "sql_space c = (c = CHR '' '' \<or> c = CHR 0x09 \<or> c = CHR 0x0A \<or> c = CHR 0x0C \<or> c = CHR 0x0D)"

text \<open>
  The words of a statement in turn, white space before each skipped; what follows the
  last word is returned.
\<close>

fun expect :: "string list \<Rightarrow> string \<Rightarrow> string option" where
  "expect [] s = Some s"
| "expect (word # words) s =
     (if take (length word) (dropWhile sql_space s) = word
      then expect words (drop (length word) (dropWhile sql_space s))
      else None)"

text \<open>
  The inside of a string constant, after its opening quote: two quotes stand for one, a
  single quote ends the constant. The value and the text after the constant are returned;
  a constant that does not end is no constant.
\<close>

fun literal_body :: "string \<Rightarrow> (string \<times> string) option" where
  "literal_body [] = None"
| "literal_body [c] = (if c = CHR 0x27 then Some ([], []) else None)"
| "literal_body (c # d # ds) =
     (if c = CHR 0x27 then
        (if d = CHR 0x27 then map_option (\<lambda>(v, rest). (c # v, rest)) (literal_body ds)
         else Some ([], d # ds))
      else map_option (\<lambda>(v, rest). (c # v, rest)) (literal_body (d # ds)))"

text \<open>
  A string constant starts with a quote.
\<close>

definition string_constant :: "string \<Rightarrow> (string \<times> string) option" where
  "string_constant s =
     (case s of [] \<Rightarrow> None | c # cs \<Rightarrow> if c = CHR 0x27 then literal_body cs else None)"

text \<open>
  The two statements that the server is asked.
\<close>

datatype statement = SelectTables | SelectColumns string

text \<open>
  Reading a statement: the tables statement, or the columns statement with the table's
  name as a string constant and nothing but white space after it. Any other text is
  rejected.
\<close>

definition parse_statement :: "string \<Rightarrow> statement option" where
  "parse_statement q =
     (case expect [''SELECT'', ''table_name'', ''FROM'', ''information_schema.tables'',
                   ''WHERE'', ''table_schema'', ''='', [CHR 0x27] @ ''public'' @ [CHR 0x27]] q of
        Some rest \<Rightarrow> if list_all sql_space rest then Some SelectTables else None
      | None \<Rightarrow>
          (case expect [''SELECT'', ''column_name'', '','', ''data_type'', ''FROM'',
                        ''information_schema.columns'', ''WHERE'', ''table_schema'', ''='',
                        [CHR 0x27] @ ''public'' @ [CHR 0x27], ''AND'', ''table_name'', ''=''] q of
             None \<Rightarrow> None
           | Some rest \<Rightarrow>
               (case string_constant (dropWhile sql_space rest) of
                  None \<Rightarrow> None
                | Some (v, rest') \<Rightarrow>
                    if list_all sql_space rest' then Some (SelectColumns v) else None)))"

text \<open>
  The database server holding a catalogue, reachable: a statement it cannot read is a
  syntax error at \<^verbatim>\<open>cursor.execute\<close>; the tables statement gives one row for each table, the
  columns statement the rows of the table of that name.
\<close>

definition postgres :: "catalogue \<Rightarrow> world" where
  "postgres cat =
     shop\<lparr>execute_result :=
            (\<lambda>q. case parse_statement q of
                   None \<Rightarrow> Some (Exception ''syntax error'')
                 | Some st \<Rightarrow> None),
          fetchall_result :=
            (\<lambda>q. case parse_statement q of
                   None \<Rightarrow> Inl (Exception ''no results to fetch'')
                 | Some SelectTables \<Rightarrow> Inr (map (\<lambda>(name, columns). [name]) cat)
                 | Some (SelectColumns name) \<Rightarrow>
                     Inr (concat (map (\<lambda>(n, columns).
                            if n = name then map (\<lambda>(c, ty). [c, ty]) columns else []) cat)))\<rparr>"

text \<open>A catalogue with one table, whose name has a quote in it.\<close>

definition quoted_catalogue :: catalogue where
  "quoted_catalogue = [(''it'' @ [CHR 0x27] @ ''s'', [(''id'', ''integer'')])]"

text \<open>No two tables of a name, and no quote in a name.\<close>

definition plain_names :: "catalogue \<Rightarrow> bool" where
  "plain_names cat =
     (distinct (map fst cat) \<and> list_all (\<lambda>(name, columns). CHR 0x27 \<notin> set name) cat)"

text \<open>
  The description of a catalogue: a block for each table, its name and its columns with
  their types, a blank line between two blocks.
\<close>

definition describe :: "catalogue \<Rightarrow> string" where
  "describe cat =
     join ''\<newline>\<newline>''
       (map (\<lambda>(name, columns).
               ''Table: '' @ name @ ''\<newline>Columns: '' @
               join '', '' (map (\<lambda>(c, ty). c @ '' ('' @ ty @ '')'') columns)) cat)"

text \<open>
  The unreachable shop with a model that answers only the prompt that carries the text
  \<^verbatim>\<open>Error fetching schema\<close> as its schema.
\<close>

definition unreachable_strict :: world where
  "unreachable_strict =
     unreachable\<lparr>model := Some (\<lambda>prompt.
       if prompt =
            prompt_head @ ''Error fetching schema'' @ prompt_middle @ ''List all customers'' @
            prompt_tail
       then Inr (Response (Inr '' SELECT id, name FROM customers\<newline>''))
       else Inl (Exception ''no schema in the prompt''))\<rparr>"

section \<open>Sequencing and the single calls\<close>

lemma py_bind_return [simp]: "py_bind (py_return x) f = f x"
  by (rule ext) (simp add: py_bind_def py_return_def)

lemma py_bind_raise [simp]: "py_bind (py_raise e) f = py_raise e"
  by (rule ext) (simp add: py_bind_def py_raise_def)

lemma getitem_apply:
  "getitem t i s =
     (if i < length t then (Inr (t ! i), s) else (Inl (Exception ''tuple index out of range''), s))"
  by (simp add: getitem_def py_return_def py_raise_def)

lemma column_info_ok:
  "columns_ok columns \<Longrightarrow> column_info columns s = (Inr (map column_entry columns), s)"
proof (induction columns)
  case Nil
  show ?case by (simp add: py_return_def)
next
  case (Cons col columns)
  then have len: "0 < length col" "Suc 0 < length col" and rest: "columns_ok columns"
    by (auto simp: columns_ok_def)
  show ?case
    using Cons.IH [OF rest] len
    by (simp add: getitem_apply py_bind_def py_return_def column_entry_def)
qed

lemma column_info_err:
  "\<not> columns_ok columns \<Longrightarrow> \<exists>e. column_info columns s = (Inl e, s)"
proof (induction columns)
  case Nil
  then show ?case by (simp add: columns_ok_def)
next
  case (Cons col columns)
  show ?case
  proof (cases "Suc 0 < length col")
    case True
    then have len: "0 < length col" by linarith
    from True Cons.prems have "\<not> columns_ok columns" by (simp add: columns_ok_def)
    from Cons.IH [OF this] obtain e where "column_info columns s = (Inl e, s)" ..
    then show ?thesis
      using True len by (simp add: getitem_apply py_bind_def)
  next
    case False
    then show ?thesis
      by (cases "0 < length col") (simp_all add: getitem_apply py_bind_def)
  qed
qed

lemma cursor_execute_apply:
  "cursor_execute w q s =
     (case execute_result w q of Some e \<Rightarrow> Inl e | None \<Rightarrow> Inr (), s\<lparr>trace := trace s @ [Execute q]\<rparr>)"
  by (simp add: cursor_execute_def py_bind_def emit_def py_raise_def py_return_def split: option.splits)

lemma cursor_fetchall_apply:
  "cursor_fetchall w q s =
     (case fetchall_result w q of Inl e \<Rightarrow> Inl e | Inr rows \<Rightarrow> Inr rows, s\<lparr>trace := trace s @ [Fetchall]\<rparr>)"
  by (simp add: cursor_fetchall_def py_bind_def emit_def py_raise_def py_return_def split: sum.splits)

lemma for_table_step:
  assumes "table_ok w table"
  shows "for_table w (table # tables) schema_info s =
         for_table w tables (schema_info @ [table_block w table])
           (s\<lparr>trace := trace s @ [Execute (columns_sql (table ! 0)), Fetchall]\<rparr>)"
proof -
  from assms obtain columns where
    len: "0 < length table" and
    ex: "execute_result w (columns_sql (table ! 0)) = None" and
    fe: "fetchall_result w (columns_sql (table ! 0)) = Inr columns" and
    cols: "columns_ok columns"
    by (auto simp: table_ok_def split: sum.splits)
  have blk: "table_block w table =
      ''Table: '' @ table ! 0 @ ''\<newline>Columns: '' @ join '', '' (map column_entry columns)"
    by (simp add: table_block_def catalog_columns_def fe)
  show ?thesis
    using len
    by (simp add: getitem_apply py_bind_def cursor_execute_apply cursor_fetchall_apply ex fe
                  column_info_ok [OF cols] blk)
qed

lemma for_table_stop:
  assumes "\<not> table_ok w table"
  shows "\<exists>e s'. for_table w (table # tables) schema_info s = (Inl e, s') \<and>
           next_conn s' = next_conn s \<and> open_conns s' = open_conns s"
proof (cases "0 < length table")
  case False
  then show ?thesis by (simp add: getitem_apply py_bind_def)
next
  case True
  show ?thesis
  proof (cases "execute_result w (columns_sql (table ! 0))")
    case (Some e)
    then show ?thesis using True
      by (simp add: getitem_apply py_bind_def cursor_execute_apply)
  next
    case None
    show ?thesis
    proof (cases "fetchall_result w (columns_sql (table ! 0))")
      case (Inl e)
      then show ?thesis using True None
        by (simp add: getitem_apply py_bind_def cursor_execute_apply cursor_fetchall_apply)
    next
      case (Inr columns)
      with assms True None have bad: "\<not> columns_ok columns"
        by (simp add: table_ok_def)
      let ?s = "s\<lparr>trace := trace s @ [Execute (columns_sql (table ! 0)), Fetchall]\<rparr>"
      from column_info_err [OF bad, of ?s] obtain e where
        "column_info columns ?s = (Inl e, ?s)" ..
      then show ?thesis using True None Inr
        by (simp add: getitem_apply py_bind_def cursor_execute_apply cursor_fetchall_apply)
    qed
  qed
qed

lemma for_table_ok:
  "list_all (table_ok w) tables \<Longrightarrow>
   \<exists>s'. for_table w tables schema_info s = (Inr (schema_info @ map (table_block w) tables), s') \<and>
        next_conn s' = next_conn s \<and> open_conns s' = open_conns s"
proof (induction tables arbitrary: schema_info s)
  case Nil
  show ?case by (simp add: py_return_def)
next
  case (Cons table tables)
  from Cons.prems have ok: "table_ok w table" and rest: "list_all (table_ok w) tables"
    by simp_all
  show ?case
    using Cons.IH [OF rest, of "schema_info @ [table_block w table]"
        "s\<lparr>trace := trace s @ [Execute (columns_sql (table ! 0)), Fetchall]\<rparr>"]
    by (subst for_table_step [OF ok]) simp
qed

lemma for_table_err:
  "\<not> list_all (table_ok w) tables \<Longrightarrow>
   \<exists>e s'. for_table w tables schema_info s = (Inl e, s') \<and>
        next_conn s' = next_conn s \<and> open_conns s' = open_conns s"
proof (induction tables arbitrary: schema_info s)
  case Nil
  then show ?case by simp
next
  case (Cons table tables)
  show ?case
  proof (cases "table_ok w table")
    case True
    with Cons.prems have rest: "\<not> list_all (table_ok w) tables" by simp
    show ?thesis
      using Cons.IH [OF rest, of "schema_info @ [table_block w table]"
          "s\<lparr>trace := trace s @ [Execute (columns_sql (table ! 0)), Fetchall]\<rparr>"]
      by (subst for_table_step [OF True]) simp
  next
    case False
    then show ?thesis by (rule for_table_stop)
  qed
qed

lemma psycopg2_connect_apply:
  "psycopg2_connect w s =
     (case connect_result w of
        Some e \<Rightarrow> (Inl e, s\<lparr>trace := trace s @ [Connect]\<rparr>)
      | None \<Rightarrow>
          (Inr (next_conn s),
           s\<lparr>next_conn := Suc (next_conn s),
             open_conns := insert (next_conn s) (open_conns s),
             trace := trace s @ [Connect]\<rparr>))"
  by (simp add: psycopg2_connect_def py_bind_def emit_def split: option.splits)

lemma conn_cursor_apply:
  "conn_cursor w conn s =
     (case cursor_result w of Some e \<Rightarrow> Inl e | None \<Rightarrow> Inr (), s\<lparr>trace := trace s @ [Cursor]\<rparr>)"
  by (simp add: conn_cursor_def py_bind_def emit_def py_raise_def py_return_def split: option.splits)

lemma conn_close_apply:
  "conn_close w conn s =
     (case close_result w of
        Some e \<Rightarrow> (Inl e, s\<lparr>trace := trace s @ [Close]\<rparr>)
      | None \<Rightarrow> (Inr (), s\<lparr>open_conns := open_conns s - {conn}, trace := trace s @ [Close]\<rparr>))"
  by (simp add: conn_close_def py_bind_def emit_def split: option.splits)

lemma logger_error_apply:
  "logger_error msg s = (Inr (), s\<lparr>trace := trace s @ [LoggerError msg]\<rparr>)"
  by (simp add: logger_error_def emit_def)

lemma get_db_schema_ok:
  assumes "catalog_ok w"
  shows "\<exists>s'. get_db_schema w s = (Inr (schema_text w), s')"
proof -
  from assms obtain tables where
    co: "connect_result w = None" and cu: "cursor_result w = None" and
    ex: "execute_result w tables_sql = None" and
    fe: "fetchall_result w tables_sql = Inr tables" and
    ok: "list_all (table_ok w) tables" and cl: "close_result w = None"
    by (auto simp: catalog_ok_def split: sum.splits)
  let ?s = "s\<lparr>next_conn := Suc (next_conn s),
             open_conns := insert (next_conn s) (open_conns s),
             trace := trace s @ [Connect, Cursor, Execute tables_sql, Fetchall]\<rparr>"
  from for_table_ok [OF ok, of "[]" ?s] obtain s1 where
    loop: "for_table w tables [] ?s = (Inr (map (table_block w) tables), s1)"
    by auto
  show ?thesis
    by (simp add: get_db_schema_def py_try_def py_bind_def psycopg2_connect_apply co
          conn_cursor_apply cu cursor_execute_apply ex cursor_fetchall_apply fe loop
          conn_close_apply cl py_return_def schema_text_def catalog_tables_def)
qed

lemma get_db_schema_err:
  assumes "\<not> catalog_ok w"
  shows "\<exists>s'. get_db_schema w s = (Inr ''Error fetching schema'', s')"
proof (cases "connect_result w")
  case (Some e)
  then show ?thesis
    by (simp add: get_db_schema_def py_try_def py_bind_def psycopg2_connect_apply
          logger_error_apply py_return_def)
next
  case co: None
  show ?thesis
  proof (cases "cursor_result w")
    case (Some e)
    then show ?thesis
      by (simp add: get_db_schema_def py_try_def py_bind_def psycopg2_connect_apply co
            conn_cursor_apply logger_error_apply py_return_def)
  next
    case cu: None
    show ?thesis
    proof (cases "execute_result w tables_sql")
      case (Some e)
      then show ?thesis
        by (simp add: get_db_schema_def py_try_def py_bind_def psycopg2_connect_apply co
              conn_cursor_apply cu cursor_execute_apply logger_error_apply py_return_def)
    next
      case ex: None
      show ?thesis
      proof (cases "fetchall_result w tables_sql")
        case (Inl e)
        then show ?thesis
          by (simp add: get_db_schema_def py_try_def py_bind_def psycopg2_connect_apply co
                conn_cursor_apply cu cursor_execute_apply ex cursor_fetchall_apply
                logger_error_apply py_return_def)
      next
        case fe: (Inr tables)
        let ?s = "s\<lparr>next_conn := Suc (next_conn s),
             open_conns := insert (next_conn s) (open_conns s),
             trace := trace s @ [Connect, Cursor, Execute tables_sql, Fetchall]\<rparr>"
        show ?thesis
        proof (cases "list_all (table_ok w) tables")
          case False
          from for_table_err [OF False, of "[]" ?s] obtain e s1 where
            loop: "for_table w tables [] ?s = (Inl e, s1)" by auto
          show ?thesis
            by (simp add: get_db_schema_def py_try_def py_bind_def psycopg2_connect_apply co
                  conn_cursor_apply cu cursor_execute_apply ex cursor_fetchall_apply fe loop
                  logger_error_apply py_return_def)
        next
          case True
          from for_table_ok [OF True, of "[]" ?s] obtain s1 where
            loop: "for_table w tables [] ?s = (Inr (map (table_block w) tables), s1)" by auto
          from assms co cu ex fe True obtain e where cl: "close_result w = Some e"
            by (auto simp: catalog_ok_def)
          show ?thesis
            by (simp add: get_db_schema_def py_try_def py_bind_def psycopg2_connect_apply co
                  conn_cursor_apply cu cursor_execute_apply ex cursor_fetchall_apply fe loop
                  conn_close_apply cl logger_error_apply py_return_def)
        qed
      qed
    qed
  qed
qed

lemma get_db_schema_text:
  "fst (get_db_schema w s) =
     Inr (if catalog_ok w then schema_text w else ''Error fetching schema'')"
proof (cases "catalog_ok w")
  case True
  from get_db_schema_ok [OF True, of s] show ?thesis using True by auto
next
  case False
  from get_db_schema_err [OF False, of s] show ?thesis using False by auto
qed

lemma fetch_error_not_ok:
  assumes "fetch_error w"
  shows "\<not> catalog_ok w"
proof
  assume "catalog_ok w"
  then obtain tables where
    co: "connect_result w = None" and cu: "cursor_result w = None" and
    ex: "execute_result w tables_sql = None" and
    fe: "fetchall_result w tables_sql = Inr tables" and
    ok: "list_all (table_ok w) tables" and cl: "close_result w = None"
    by (auto simp: catalog_ok_def split: sum.splits)
  have ct: "catalog_tables w = tables"
    by (simp add: catalog_tables_def fe)
  from assms co cu ex fe cl ct obtain table where
    mem: "table \<in> set tables" and bad: "query_error w (columns_sql (table ! 0))"
    by (auto simp: fetch_error_def query_error_def list_ex_iff)
  from ok mem have "table_ok w table"
    by (simp add: list_all_iff)
  with bad show False
    by (auto simp: table_ok_def query_error_def split: sum.splits)
qed

section \<open>The schema introspector\<close>

text \<open>
  C4. On every connectivity or catalogue-query error, also when the connection cannot be
  established, \<^verbatim>\<open>get_db_schema\<close> returns exactly the text \<^verbatim>\<open>Error fetching schema\<close>:
  it returns a value (\<open>Inr\<close>) and raises nothing.
\<close>

theorem get_db_schema_sentinel_on_error:
  assumes "fetch_error w"
  shows "\<exists>s'. get_db_schema w s = (Inr ''Error fetching schema'', s')"
  using get_db_schema_err [OF fetch_error_not_ok [OF assms]] .

theorem get_db_schema_sentinel_on_error_witness:
  "fetch_error unreachable \<and>
   (\<exists>s'. get_db_schema unreachable start = (Inr ''Error fetching schema'', s'))"
proof -
  have err: "fetch_error unreachable"
    by (simp add: fetch_error_def unreachable_def)
  from get_db_schema_sentinel_on_error [OF err, of start] err show ?thesis by simp
qed

lemma pd_read_sql_query_apply:
  "pd_read_sql_query w q conn s =
     (case read_sql_query_result w q of Inl e \<Rightarrow> Inl e | Inr df \<Rightarrow> Inr df,
      s\<lparr>trace := trace s @ [ReadSqlQuery q]\<rparr>)"
  by (simp add: pd_read_sql_query_def py_bind_def emit_def py_raise_def py_return_def
        split: sum.splits)

section \<open>The executor\<close>

text \<open>
  C3. For every statement text \<^verbatim>\<open>execute_query\<close> raises nothing: it returns a pair. On any
  database error the pair is \<open>False\<close> with \<^verbatim>\<open>Error executing query: \<close> followed by the
  error's message; otherwise it is \<open>True\<close> with the statement's result set, whatever the
  number of its rows.
\<close>

theorem execute_query_total:
  "\<exists>s'. execute_query w sql_query s =
     (Inr (case statement_result w sql_query of
             Inl e \<Rightarrow> (False, Str (''Error executing query: '' @ str e))
           | Inr results \<Rightarrow> (True, DataFrame results)), s')"
  by (simp add: execute_query_def statement_result_def py_try_def py_bind_def
        psycopg2_connect_apply pd_read_sql_query_apply conn_close_apply logger_error_apply
        py_return_def split: option.splits sum.splits)

theorem execute_query_total_witness:
  "fst (execute_query shop ''SELEC 1'' start) =
     Inr (False, Str ''Error executing query: syntax error'') \<and>
   fst (execute_query shop ''SELECT id, name FROM customers'' start) =
     Inr (True, DataFrame customers)"
  using execute_query_total [of shop "''SELEC 1''" start]
    execute_query_total [of shop "''SELECT id, name FROM customers''" start]
  by (auto simp: statement_result_def shop_def)

lemma columns_sql_inject [simp]: "columns_sql a = columns_sql b \<longleftrightarrow> a = b"
  by (simp add: columns_sql_def)

lemma columns_sql_not_tables [simp]: "columns_sql a \<noteq> tables_sql"
  by (simp add: columns_sql_def tables_sql_def)

lemma catalog_ok_shop: "catalog_ok shop"
  by (simp add: catalog_ok_def shop_def shop_fetchall_def table_ok_def columns_ok_def)

lemma catalog_tables_shop: "catalog_tables shop = [[''customers''], [''orders'']]"
  by (simp add: catalog_tables_def shop_def shop_fetchall_def)

lemma catalog_columns_shop:
  "catalog_columns shop ''customers'' = [[''id'', ''integer''], [''name'', ''text'']]"
  "catalog_columns shop ''orders'' =
     [[''id'', ''integer''], [''customer_id'', ''integer''], [''total'', ''numeric'']]"
  by (simp_all add: catalog_columns_def shop_def shop_fetchall_def)

section \<open>The schema introspector: the description\<close>

text \<open>
  When every call of the driver answers, the rows of the tables query carry a name and
  those of the columns queries a name and a type, \<^verbatim>\<open>get_db_schema\<close> returns one block for
  each row of the tables query, joined by blank lines; the block of a table is
  \<^verbatim>\<open>Table: <name>\<close>, a line feed, and \<^verbatim>\<open>Columns: <col> (<type>), ...\<close> with the rows that
  the columns query of that name returns, in the order returned.
\<close>

lemma get_db_schema_blocks:
  assumes "catalog_ok w"
  shows "\<exists>blocks s'.
           get_db_schema w s = (Inr (join ''\<newline>\<newline>'' blocks), s') \<and>
           length blocks = length (catalog_tables w) \<and>
           (\<forall>i < length blocks.
              blocks ! i =
                ''Table: '' @ catalog_tables w ! i ! 0 @ ''\<newline>Columns: '' @
                join '', ''
                  (map (\<lambda>col. col ! 0 @ '' ('' @ col ! 1 @ '')'')
                     (catalog_columns w (catalog_tables w ! i ! 0))))"
proof -
  from get_db_schema_ok [OF assms, of s] obtain s' where
    run: "get_db_schema w s = (Inr (schema_text w), s')" ..
  let ?blocks = "map (table_block w) (catalog_tables w)"
  have "get_db_schema w s = (Inr (join ''\<newline>\<newline>'' ?blocks), s')"
    using run by (simp add: schema_text_def)
  moreover have "length ?blocks = length (catalog_tables w)" by simp
  moreover have "\<forall>i < length ?blocks.
              ?blocks ! i =
                ''Table: '' @ catalog_tables w ! i ! 0 @ ''\<newline>Columns: '' @
                join '', ''
                  (map (\<lambda>col. col ! 0 @ '' ('' @ col ! 1 @ '')'')
                     (catalog_columns w (catalog_tables w ! i ! 0)))"
    by (simp add: table_block_def column_entry_def [abs_def])
  ultimately show ?thesis by blast
qed

lemma get_db_schema_blocks_shop:
  "catalog_ok shop \<and>
   fst (get_db_schema shop start) =
     Inr (''Table: customers\<newline>Columns: id (integer), name (text)'' @
          ''\<newline>\<newline>'' @
          ''Table: orders\<newline>Columns: id (integer), customer_id (integer), total (numeric)'')"
proof -
  from get_db_schema_blocks [OF catalog_ok_shop, of start] obtain blocks s' where
    run: "get_db_schema shop start = (Inr (join ''\<newline>\<newline>'' blocks), s')" and
    len: "length blocks = length (catalog_tables shop)" and
    nth: "\<forall>i < length blocks.
              blocks ! i =
                ''Table: '' @ catalog_tables shop ! i ! 0 @ ''\<newline>Columns: '' @
                join '', ''
                  (map (\<lambda>col. col ! 0 @ '' ('' @ col ! 1 @ '')'')
                     (catalog_columns shop (catalog_tables shop ! i ! 0)))"
    by blast
  from len have len2: "length blocks = 2" by (simp add: catalog_tables_shop)
  then obtain b0 b1 where bs: "blocks = [b0, b1]"
    by (cases blocks; cases "tl blocks"; cases "tl (tl blocks)") auto
  from nth [rule_format, of 0] bs
  have "b0 = ''Table: customers\<newline>Columns: id (integer), name (text)''"
    by (simp add: catalog_tables_shop catalog_columns_shop)
  moreover from nth [rule_format, of 1] bs have
    "b1 = ''Table: orders\<newline>Columns: id (integer), customer_id (integer), total (numeric)''"
    by (simp add: catalog_tables_shop catalog_columns_shop)
  ultimately show ?thesis using run bs catalog_ok_shop by simp
qed

section \<open>The schema introspector against the server\<close>

lemma parse_tables_sql: "parse_statement tables_sql = Some SelectTables"
  by (simp add: parse_statement_def tables_sql_def sql_space_def)


lemma literal_body_plain:
  "CHR 0x27 \<notin> set name \<Longrightarrow> d \<noteq> CHR 0x27 \<Longrightarrow>
   literal_body (name @ CHR 0x27 # d # ds) = Some (name, d # ds)"
proof (induction name)
  case Nil
  then show ?case by simp
next
  case (Cons x xs)
  then show ?case by (cases xs) auto
qed

lemma parse_columns_sql_plain:
  assumes "CHR 0x27 \<notin> set name"
  shows "parse_statement (columns_sql name) = Some (SelectColumns name)"
proof -
  have body: "literal_body (name @ CHR 0x27 # CHR 0x0A # ''            '') =
      Some (name, CHR 0x0A # ''            '')"
    using assms by (intro literal_body_plain) simp_all
  show ?thesis
    by (simp add: parse_statement_def columns_sql_def sql_space_def string_constant_def body)
qed

lemma parse_columns_sql_quoted:
  "parse_statement (columns_sql [CHR ''i'', CHR ''t'', CHR 0x27, CHR ''s'']) = None"
  by (simp add: parse_statement_def columns_sql_def sql_space_def string_constant_def)

lemma parse_columns_sql_escaped:
  "parse_statement (columns_sql (''it'' @ [CHR 0x27, CHR 0x27] @ ''s'')) =
     Some (SelectColumns (''it'' @ [CHR 0x27] @ ''s''))"
  by (simp add: parse_statement_def columns_sql_def sql_space_def string_constant_def)

text \<open>
  C2 says that for every database whose catalogue reports N tables \<^verbatim>\<open>get_db_schema\<close>
  returns N blocks. The database below is reachable and has one table, named \<^verbatim>\<open>it's\<close>. Its
  catalogue reports the table, and answers the columns statement when the name is written
  as a string constant, the quote doubled. \<^verbatim>\<open>get_db_schema\<close> pastes the name as it is
  between two quotes; the server rejects that statement, and the call returns the text
  \<^verbatim>\<open>Error fetching schema\<close> instead of one block.
\<close>

theorem get_db_schema_quoted_table_name:
  "fetchall_result (postgres quoted_catalogue) tables_sql = Inr [[''it'' @ [CHR 0x27] @ ''s'']] \<and>
   fst (get_db_schema (postgres quoted_catalogue) start) = Inr ''Error fetching schema'' \<and>
   trace (snd (get_db_schema (postgres quoted_catalogue) start)) =
     [Connect, Cursor, Execute tables_sql, Fetchall,
      Execute
        (''\<newline>'' @
         ''                SELECT column_name, data_type \<newline>'' @
         ''                FROM information_schema.columns \<newline>'' @
         ''                WHERE table_schema = '' @ [CHR 0x27] @ ''public'' @ [CHR 0x27] @
         '' AND table_name = '' @ [CHR 0x27] @ ''it'' @ [CHR 0x27] @ ''s'' @ [CHR 0x27] @
         ''\<newline>'' @
         ''            ''),
      LoggerError ''Failed to fetch database schema: syntax error''] \<and>
   fetchall_result (postgres quoted_catalogue)
     (''SELECT column_name, data_type FROM information_schema.columns '' @
      ''WHERE table_schema = '' @ [CHR 0x27] @ ''public'' @ [CHR 0x27] @
      '' AND table_name = '' @ [CHR 0x27] @ ''it'' @ [CHR 0x27, CHR 0x27] @ ''s'' @ [CHR 0x27]) =
     Inr [[''id'', ''integer'']]"
proof -
  let ?w = "postgres quoted_catalogue"
  let ?name = "[CHR ''i'', CHR ''t'', CHR 0x27, CHR ''s'']"
  have tables: "execute_result ?w tables_sql = None"
    "fetchall_result ?w tables_sql = Inr [[?name]]"
    by (simp_all add: postgres_def parse_tables_sql quoted_catalogue_def)
  have columns: "execute_result ?w (columns_sql ?name) = Some (Exception ''syntax error'')"
    by (simp add: postgres_def parse_columns_sql_quoted)
  have others: "connect_result ?w = None" "cursor_result ?w = None"
    by (simp_all add: postgres_def shop_def)
  have run: "get_db_schema ?w start =
      (Inr ''Error fetching schema'',
       \<lparr>next_conn = 1, open_conns = {0},
        trace = [Connect, Cursor, Execute tables_sql, Fetchall, Execute (columns_sql ?name),
                 LoggerError ''Failed to fetch database schema: syntax error'']\<rparr>)"
    by (simp add: get_db_schema_def py_try_def py_bind_def psycopg2_connect_apply
          conn_cursor_apply cursor_execute_apply cursor_fetchall_apply getitem_apply
          logger_error_apply py_return_def tables columns others start_def)
  have sent: "columns_sql ?name =
         ''\<newline>'' @
         ''                SELECT column_name, data_type \<newline>'' @
         ''                FROM information_schema.columns \<newline>'' @
         ''                WHERE table_schema = '' @ [CHR 0x27] @ ''public'' @ [CHR 0x27] @
         '' AND table_name = '' @ [CHR 0x27] @ ''it'' @ [CHR 0x27] @ ''s'' @ [CHR 0x27] @
         ''\<newline>'' @
         ''            ''"
    by (simp add: columns_sql_def)
  have escaped: "fetchall_result ?w
     (''SELECT column_name, data_type FROM information_schema.columns '' @
      ''WHERE table_schema = '' @ [CHR 0x27] @ ''public'' @ [CHR 0x27] @
      '' AND table_name = '' @ [CHR 0x27] @ ''it'' @ [CHR 0x27, CHR 0x27] @ ''s'' @ [CHR 0x27]) =
     Inr [[''id'', ''integer'']]"
    by (simp add: postgres_def parse_statement_def sql_space_def string_constant_def
          quoted_catalogue_def)
  from tables(2) run escaped show ?thesis
    by (simp only: fst_conv snd_conv state.simps sent) simp
qed

text \<open>
  With no quote in a table name (and no name twice) the statements that
  \<^verbatim>\<open>get_db_schema\<close> sends are read as meant, and the text returned is the description of
  the catalogue.
\<close>

lemma rows_of_table:
  "distinct (map fst cat) \<Longrightarrow> (name, columns) \<in> set cat \<Longrightarrow>
   concat (map (\<lambda>(n, columns). if n = name then map (\<lambda>(c, ty). [c, ty]) columns else []) cat) =
     map (\<lambda>(c, ty). [c, ty]) columns"
proof (induction cat)
  case Nil
  then show ?case by simp
next
  case (Cons entry cat)
  obtain n cs where entry: "entry = (n, cs)" by (cases entry)
  show ?case
  proof (cases "n = name")
    case True
    with Cons.prems entry have "cs = columns" and "name \<notin> fst ` set cat"
      by (auto simp: rev_image_eqI)
    then have "concat (map (\<lambda>(n, columns).
        if n = name then map (\<lambda>(c, ty). [c, ty]) columns else []) cat) = []"
      by (induction cat) (auto simp: rev_image_eqI)
    with True entry \<open>cs = columns\<close> show ?thesis by simp
  next
    case False
    with Cons entry show ?thesis by auto
  qed
qed

lemma postgres_columns:
  assumes "plain_names cat" and "(name, columns) \<in> set cat"
  shows "execute_result (postgres cat) (columns_sql name) = None"
    and "fetchall_result (postgres cat) (columns_sql name) = Inr (map (\<lambda>(c, ty). [c, ty]) columns)"
proof -
  from assms have plain: "CHR 0x27 \<notin> set name" and dist: "distinct (map fst cat)"
    by (auto simp: plain_names_def list_all_iff)
  show "execute_result (postgres cat) (columns_sql name) = None"
    by (simp add: postgres_def parse_columns_sql_plain [OF plain])
  show "fetchall_result (postgres cat) (columns_sql name) =
      Inr (map (\<lambda>(c, ty). [c, ty]) columns)"
    by (simp add: postgres_def parse_columns_sql_plain [OF plain]
          rows_of_table [OF dist assms(2)])
qed

lemma postgres_tables:
  "catalog_tables (postgres cat) = map (\<lambda>(name, columns). [name]) cat"
  by (simp add: catalog_tables_def postgres_def parse_tables_sql)

lemma postgres_catalog_ok:
  assumes "plain_names cat"
  shows "catalog_ok (postgres cat)"
proof -
  have "table_ok (postgres cat) [name]" if "(name, columns) \<in> set cat" for name columns
    using postgres_columns [OF assms that]
    by (simp add: table_ok_def columns_ok_def list_all_iff split_beta)
  then have "list_all (table_ok (postgres cat)) (map (\<lambda>(name, columns). [name]) cat)"
    by (auto simp: list_all_iff)
  then show ?thesis
    by (simp add: catalog_ok_def postgres_def parse_tables_sql shop_def)
qed

lemma get_db_schema_plain_names:
  assumes "plain_names cat"
  shows "fst (get_db_schema (postgres cat) s) = Inr (describe cat)"
proof -
  have "table_block (postgres cat) [name] =
      ''Table: '' @ name @ ''\<newline>Columns: '' @
      join '', '' (map (\<lambda>(c, ty). c @ '' ('' @ ty @ '')'') columns)"
    if "(name, columns) \<in> set cat" for name columns
    using postgres_columns(2) [OF assms that]
    by (simp add: table_block_def catalog_columns_def column_entry_def [abs_def] comp_def
          case_prod_unfold)
  then have "map (table_block (postgres cat)) (map (\<lambda>(name, columns). [name]) cat) =
      map (\<lambda>(name, columns).
               ''Table: '' @ name @ ''\<newline>Columns: '' @
               join '', '' (map (\<lambda>(c, ty). c @ '' ('' @ ty @ '')'') columns)) cat"
    by auto
  then have "schema_text (postgres cat) = describe cat"
    by (simp only: schema_text_def describe_def postgres_tables)
  with postgres_catalog_ok [OF assms] show ?thesis
    by (simp add: get_db_schema_text)
qed

lemma catalog_ok_empty_db: "catalog_ok empty_db"
  by (simp add: catalog_ok_def empty_db_def shop_def)

lemma catalog_tables_empty_db: "catalog_tables empty_db = []"
  by (simp add: catalog_tables_def empty_db_def)

text \<open>
  C10. For a reachable database whose public schema has no table, \<^verbatim>\<open>get_db_schema\<close>
  succeeds and returns the empty text, which is not the text \<^verbatim>\<open>Error fetching schema\<close>
  of a failed fetch; the empty text is all that tells of the empty schema.
\<close>

theorem get_db_schema_no_tables:
  assumes "catalog_ok w" and "catalog_tables w = []"
  shows "fst (get_db_schema w s) = Inr [] \<and>
         fst (get_db_schema w s) \<noteq> Inr ''Error fetching schema''"
  using assms by (simp add: get_db_schema_text schema_text_def)

theorem get_db_schema_no_tables_witness:
  "catalog_ok empty_db \<and> catalog_tables empty_db = [] \<and>
   fst (get_db_schema empty_db start) = Inr [] \<and>
   fst (get_db_schema empty_db start) \<noteq> Inr ''Error fetching schema''"
  using get_db_schema_no_tables [OF catalog_ok_empty_db catalog_tables_empty_db, of start]
    catalog_ok_empty_db catalog_tables_empty_db
  by simp

text \<open>
  C8. Against a database that does not change, a second call of \<^verbatim>\<open>get_db_schema\<close>,
  made in the state the first call left, returns the same text as the first.
\<close>

theorem get_db_schema_idempotent:
  "fst (get_db_schema w (snd (get_db_schema w s))) = fst (get_db_schema w s)"
  by (simp add: get_db_schema_text)

theorem get_db_schema_idempotent_witness:
  "fst (get_db_schema shop (snd (get_db_schema shop start))) = fst (get_db_schema shop start) \<and>
   fst (get_db_schema unreachable (snd (get_db_schema unreachable start))) =
     Inr ''Error fetching schema''"
proof -
  have "\<not> catalog_ok unreachable"
    by (simp add: catalog_ok_def unreachable_def)
  then show ?thesis
    using get_db_schema_idempotent [of shop start]
      get_db_schema_idempotent [of unreachable start]
    by (simp add: get_db_schema_text)
qed

section \<open>The translator\<close>

lemma get_db_schema_pair:
  "get_db_schema w s = (Inr (fetched_schema w), snd (get_db_schema w s))"
  using get_db_schema_text [of w s]
  by (cases "get_db_schema w s") (simp add: fetched_schema_def)

lemma model_generate_content_apply:
  "model_generate_content w prompt s =
     (case model w of
        None \<Rightarrow>
          (Inl (Exception (''name '' @ [CHR 0x27] @ ''model'' @ [CHR 0x27] @ '' is not defined'')), s)
      | Some g \<Rightarrow>
          (case g prompt of Inl e \<Rightarrow> Inl e | Inr r \<Rightarrow> Inr r,
           s\<lparr>trace := trace s @ [GenerateContent prompt]\<rparr>))"
  by (simp add: model_generate_content_def py_bind_def emit_def py_raise_def py_return_def
        split: option.splits sum.splits)

lemma get_text_apply:
  "get_text r s = (case response_text r of Inl e \<Rightarrow> Inl e | Inr t \<Rightarrow> Inr t, s)"
  by (simp add: get_text_def py_raise_def py_return_def split: sum.splits)

lemma get_generated_sql_apply:
  "get_generated_sql w q s =
     (case model_answer w (prompt_of (fetched_schema w) q) of
        Inl e \<Rightarrow>
          (Inr (''Error generating SQL: '' @ str e),
           (snd (get_db_schema w s))
             \<lparr>trace := trace (snd (get_db_schema w s)) @
                        model_calls w (prompt_of (fetched_schema w) q) @
                        [LoggerError (''Gemini API error: '' @ str e)]\<rparr>)
      | Inr t \<Rightarrow>
          (Inr (strip t),
           (snd (get_db_schema w s))
             \<lparr>trace := trace (snd (get_db_schema w s)) @
                        model_calls w (prompt_of (fetched_schema w) q)\<rparr>))"
  apply (simp only: get_generated_sql_def py_try_def py_bind_def)
  apply (subst get_db_schema_pair)
  apply (simp add: model_generate_content_apply get_text_apply model_answer_def model_calls_def
      logger_error_apply py_return_def split: option.splits sum.splits)
  done


lemma list_all_takeWhile: "list_all P (takeWhile P xs)"
  by (induction xs) simp_all

lemma strip_decompose:
  "t = takeWhile py_isspace t @ strip t @
       rev (takeWhile py_isspace (rev (dropWhile py_isspace t)))"
proof -
  let ?u = "dropWhile py_isspace t"
  have "rev (takeWhile py_isspace (rev ?u) @ dropWhile py_isspace (rev ?u)) = ?u"
    by (simp only: takeWhile_dropWhile_id rev_rev_ident)
  then have u: "strip t @ rev (takeWhile py_isspace (rev ?u)) = ?u"
    by (simp only: rev_append strip_def)
  have "t = takeWhile py_isspace t @ ?u"
    by (simp only: takeWhile_dropWhile_id)
  with u show ?thesis by (simp only:)
qed

lemma strip_trimmed:
  "\<exists>l r. t = l @ strip t @ r \<and> list_all py_isspace l \<and> list_all py_isspace r"
proof -
  let ?l = "takeWhile py_isspace t"
  let ?r = "rev (takeWhile py_isspace (rev (dropWhile py_isspace t)))"
  have "list_all py_isspace ?l"
    by (rule list_all_takeWhile)
  moreover have "list_all py_isspace ?r"
    by (simp only: list_all_rev list_all_takeWhile)
  ultimately show ?thesis using strip_decompose [of t] by blast
qed

lemma strip_ends:
  assumes "strip t \<noteq> []"
  shows "\<not> py_isspace (hd (strip t)) \<and> \<not> py_isspace (last (strip t))"
proof -
  let ?u = "dropWhile py_isspace t"
  let ?v = "dropWhile py_isspace (rev ?u)"
  from assms have v: "?v \<noteq> []" by (simp add: strip_def)
  then have "\<not> py_isspace (hd ?v)" by (rule hd_dropWhile)
  with v have la: "\<not> py_isspace (last (strip t))"
    by (simp add: strip_def last_rev)
  have u: "?u \<noteq> []"
  proof
    assume empty: "?u = []"
    have "?v = dropWhile py_isspace (rev [])" by (simp only: empty)
    with v show False by simp
  qed
  then have hu: "\<not> py_isspace (hd ?u)" by (rule hd_dropWhile)
  have "rev (takeWhile py_isspace (rev ?u) @ dropWhile py_isspace (rev ?u)) = ?u"
    by (simp only: takeWhile_dropWhile_id rev_rev_ident)
  then have "strip t @ rev (takeWhile py_isspace (rev ?u)) = ?u"
    by (simp only: rev_append strip_def)
  with assms have "hd ?u = hd (strip t)" by (metis hd_append2)
  with hu la show ?thesis by simp
qed

lemma model_answer_text:
  assumes "model w = Some generate_content"
    and "generate_content prompt = Inr response"
    and "response_text response = Inr t"
  shows "model_answer w prompt = Inr t" and "model_calls w prompt = [GenerateContent prompt]"
  using assms by (simp_all add: model_answer_def model_calls_def)

text \<open>
  C5. For every question, when the model call succeeds: \<^verbatim>\<open>get_generated_sql\<close> sends one
  prompt, the fixed text with the schema just fetched and the question pasted in as they
  are, and returns the response text with the white space around it removed (what is
  removed is white space only, and what is left neither starts nor ends with white space).
\<close>

theorem get_generated_sql_success:
  assumes "fst (get_db_schema w s) = Inr schema"
    and "model w = Some generate_content"
    and "generate_content (prompt_head @ schema @ prompt_middle @ q @ prompt_tail) = Inr response"
    and "response_text response = Inr t"
  shows "(\<exists>s'. get_generated_sql w q s = (Inr (strip t), s') \<and>
              trace s' = trace (snd (get_db_schema w s)) @
                [GenerateContent (prompt_head @ schema @ prompt_middle @ q @ prompt_tail)]) \<and>
         (\<exists>l r. t = l @ strip t @ r \<and> list_all py_isspace l \<and> list_all py_isspace r) \<and>
         (strip t \<noteq> [] \<longrightarrow> \<not> py_isspace (hd (strip t)) \<and> \<not> py_isspace (last (strip t)))"
proof -
  from assms(1) have schema: "fetched_schema w = schema"
    by (simp add: get_db_schema_text fetched_schema_def)
  have prompt: "prompt_of (fetched_schema w) q =
      prompt_head @ schema @ prompt_middle @ q @ prompt_tail"
    by (simp only: prompt_of_def schema)
  from model_answer_text [OF assms(2,3,4)] have
    "model_answer w (prompt_of (fetched_schema w) q) = Inr t"
    "model_calls w (prompt_of (fetched_schema w) q) =
       [GenerateContent (prompt_head @ schema @ prompt_middle @ q @ prompt_tail)]"
    by (simp_all only: prompt)
  then have "\<exists>s'. get_generated_sql w q s = (Inr (strip t), s') \<and>
              trace s' = trace (snd (get_db_schema w s)) @
                [GenerateContent (prompt_head @ schema @ prompt_middle @ q @ prompt_tail)]"
    by (simp add: get_generated_sql_apply)
  with strip_trimmed [of t] strip_ends [of t] show ?thesis by blast
qed

theorem get_generated_sql_success_witness:
  "model shop \<noteq> None \<and>
   fst (get_generated_sql shop ''List all customers'' start) =
     Inr ''SELECT id, name FROM customers''"
proof -
  have fetch: "fst (get_db_schema shop start) = Inr (fetched_schema shop)"
    by (simp add: get_db_schema_text fetched_schema_def)
  have m: "model shop = Some (\<lambda>prompt. Inr (Response (Inr '' SELECT id, name FROM customers\<newline>'')))"
    by (simp add: shop_def)
  have t: "strip '' SELECT id, name FROM customers\<newline>'' = ''SELECT id, name FROM customers''"
    by (simp add: strip_def py_isspace_def)
  from get_generated_sql_success [OF fetch m refl, of "'' SELECT id, name FROM customers\<newline>''" "''List all customers''"]
  show ?thesis by (auto simp: t m)
qed

text \<open>
  C7. When the schema fetch fails, \<^verbatim>\<open>get_generated_sql\<close> does not fail for that: it pastes
  the text \<^verbatim>\<open>Error fetching schema\<close> into the prompt where the schema stands, between the
  first and the second literal part of the f-string, sends that prompt to the model, and its result is decided by the model's answer alone; when the model answers with
  a text, the result is that text trimmed.
\<close>

theorem get_generated_sql_schema_failure:
  assumes "fetch_error w" and "model w = Some generate_content"
  shows "(\<exists>s'. get_generated_sql w q s =
            (Inr (case generate_content
                         (prompt_head @ ''Error fetching schema'' @ prompt_middle @ q @
                          prompt_tail) of
                    Inl e \<Rightarrow> ''Error generating SQL: '' @ str e
                  | Inr response \<Rightarrow>
                      (case response_text response of
                         Inl e \<Rightarrow> ''Error generating SQL: '' @ str e
                       | Inr t \<Rightarrow> strip t)), s') \<and>
            GenerateContent
              (prompt_head @ ''Error fetching schema'' @ prompt_middle @ q @ prompt_tail)
              \<in> set (trace s')) \<and>
         (\<forall>response t.
            generate_content
              (prompt_head @ ''Error fetching schema'' @ prompt_middle @ q @ prompt_tail) =
              Inr response \<longrightarrow>
            response_text response = Inr t \<longrightarrow>
            fst (get_generated_sql w q s) = Inr (strip t))"
proof -
  from fetch_error_not_ok [OF assms(1)] have schema:
    "fetched_schema w = ''Error fetching schema''"
    by (simp add: fetched_schema_def)
  have prompt: "prompt_of ''Error fetching schema'' q =
      prompt_head @ ''Error fetching schema'' @ prompt_middle @ q @ prompt_tail"
    by (simp only: prompt_of_def)
  show ?thesis
    unfolding prompt [symmetric]
    by (simp add: get_generated_sql_apply schema model_answer_def model_calls_def assms(2)
          split: sum.splits)
qed

theorem get_generated_sql_schema_failure_witness:
  "fetch_error unreachable_strict \<and> model unreachable_strict \<noteq> None \<and>
   fst (get_generated_sql unreachable_strict ''List all customers'' start) =
     Inr ''SELECT id, name FROM customers'' \<and>
   \<not> startswith ''SELECT id, name FROM customers'' ''Error'' \<and>
   GenerateContent
     (prompt_head @ ''Error fetching schema'' @ prompt_middle @ ''List all customers'' @
      prompt_tail)
     \<in> set (trace (snd (get_generated_sql unreachable_strict ''List all customers'' start)))"
proof -
  let ?g = "\<lambda>prompt.
       if prompt =
            prompt_head @ ''Error fetching schema'' @ prompt_middle @ ''List all customers'' @
            prompt_tail
       then Inr (Response (Inr '' SELECT id, name FROM customers\<newline>''))
       else Inl (Exception ''no schema in the prompt'')"
  have err: "fetch_error unreachable_strict"
    by (simp add: fetch_error_def unreachable_strict_def unreachable_def)
  have m: "model unreachable_strict = Some ?g"
    by (simp add: unreachable_strict_def)
  have t: "strip '' SELECT id, name FROM customers\<newline>'' = ''SELECT id, name FROM customers''"
    by (simp add: strip_def py_isspace_def)
  from get_generated_sql_schema_failure [OF err m, of "''List all customers''" start]
  show ?thesis using err by (auto simp: t m startswith_def)
qed

section \<open>The page: a submitted question\<close>

lemma main_submit_error_branch:
  assumes "q \<noteq> []"
    and "get_generated_sql w q (s\<lparr>trace := trace s @ [StSpinner ''Generating SQL query...'']\<rparr>) =
           (Inr sql_query, s1)"
    and "startswith sql_query ''Error''"
  shows "main_submit w True q show_sql s =
           (Inr (), s1\<lparr>trace := trace s1 @ [StError (Str sql_query)]\<rparr>)"
  using assms by (simp add: main_submit_def py_bind_def emit_def)

text \<open>Every call of \<^verbatim>\<open>execute_query\<close> shows in the trace: it starts by connecting.\<close>

lemma execute_query_connects:
  "\<exists>evs. trace (snd (execute_query w sql_query s)) = trace s @ Connect # evs"
  by (simp add: execute_query_def py_try_def py_bind_def psycopg2_connect_apply
        pd_read_sql_query_apply conn_close_apply logger_error_apply py_return_def
        split: option.splits sum.splits)

text \<open>
  C1. When the model call fails (the name \<^verbatim>\<open>model\<close> is unbound, the request raises, or
  reading the response text raises), \<^verbatim>\<open>get_generated_sql\<close> raises nothing and returns
  \<^verbatim>\<open>Error generating SQL: \<close> followed by the message. And whenever the text it returns
  starts with \<^verbatim>\<open>Error\<close>, the page does nothing after the translator but show that text
  as an error: \<^verbatim>\<open>execute_query\<close> is not called.
\<close>

theorem translator_failure_skips_executor:
  "(model_answer w (prompt_of (fetched_schema w) q) = Inl e \<longrightarrow>
      (\<exists>s'. get_generated_sql w q s = (Inr (''Error generating SQL: '' @ str e), s'))) \<and>
   (q \<noteq> [] \<and>
    get_generated_sql w q (s\<lparr>trace := trace s @ [StSpinner ''Generating SQL query...'']\<rparr>) =
      (Inr sql_query, s1) \<and>
    startswith sql_query ''Error'' \<longrightarrow>
      main_submit w True q show_sql s =
        (Inr (), s1\<lparr>trace := trace s1 @ [StError (Str sql_query)]\<rparr>))"
  by (simp add: get_generated_sql_apply main_submit_error_branch)

lemma model_answer_failing:
  "model_answer failing_model prompt = Inl (Exception ''quota exceeded'')"
  "model_calls failing_model prompt = [GenerateContent prompt]"
  by (simp_all add: model_answer_def model_calls_def failing_model_def)

theorem translator_failure_skips_executor_witness:
  "model_answer failing_model (prompt_of (fetched_schema failing_model) ''List all customers'') =
     Inl (Exception ''quota exceeded'') \<and>
   fst (get_generated_sql failing_model ''List all customers'' start) =
     Inr ''Error generating SQL: quota exceeded'' \<and>
   startswith ''Error generating SQL: quota exceeded'' ''Error'' \<and>
   (\<exists>s1. main_submit failing_model True ''List all customers'' True start =
           (Inr (), s1\<lparr>trace := trace s1 @
              [StError (Str ''Error generating SQL: quota exceeded'')]\<rparr>))"
proof -
  let ?fetched = "start\<lparr>trace := trace start @ [StSpinner ''Generating SQL query...'']\<rparr>"
  obtain s1 where
    run: "get_generated_sql failing_model ''List all customers'' ?fetched =
            (Inr ''Error generating SQL: quota exceeded'', s1)"
    by (simp add: get_generated_sql_apply model_answer_failing)
  have pre: "startswith ''Error generating SQL: quota exceeded'' ''Error''"
    by (simp add: startswith_def)
  from translator_failure_skips_executor
    [of failing_model "''List all customers''" "Exception ''quota exceeded''" start
        "''Error generating SQL: quota exceeded''" s1 True]
  show ?thesis using run pre by (auto simp: model_answer_failing)
qed

text \<open>
  C9. When the model call succeeds and the trimmed response text starts with
  \<^verbatim>\<open>Error\<close>, the translator returns it without logging any failure, and the page treats
  it as a failed translation: it shows the text as an error and does not run it.
\<close>

theorem error_prefixed_answer_not_executed:
  assumes "q \<noteq> []"
    and "model_answer w (prompt_of (fetched_schema w) q) = Inr t"
    and "startswith (strip t) ''Error''"
  shows "\<exists>s1.
           get_generated_sql w q (s\<lparr>trace := trace s @ [StSpinner ''Generating SQL query...'']\<rparr>) =
             (Inr (strip t), s1) \<and>
           trace s1 =
             trace (snd (get_db_schema w
                      (s\<lparr>trace := trace s @ [StSpinner ''Generating SQL query...'']\<rparr>))) @
             model_calls w (prompt_of (fetched_schema w) q) \<and>
           main_submit w True q show_sql s =
             (Inr (), s1\<lparr>trace := trace s1 @ [StError (Str (strip t))]\<rparr>)"
proof -
  let ?begun = "s\<lparr>trace := trace s @ [StSpinner ''Generating SQL query...'']\<rparr>"
  let ?fetched = "snd (get_db_schema w ?begun)"
  let ?answered = "?fetched\<lparr>trace := trace ?fetched @ model_calls w (prompt_of (fetched_schema w) q)\<rparr>"
  have run: "get_generated_sql w q ?begun = (Inr (strip t), ?answered)"
    by (simp add: get_generated_sql_apply assms(2))
  have tr: "trace ?answered = trace ?fetched @ model_calls w (prompt_of (fetched_schema w) q)"
    by simp
  have shown: "main_submit w True q show_sql s =
      (Inr (), ?answered\<lparr>trace := trace ?answered @ [StError (Str (strip t))]\<rparr>)"
    by (rule main_submit_error_branch [OF assms(1) run assms(3)])
  from run tr shown show ?thesis by blast
qed

lemma model_answer_echoing:
  "model_answer echoing_model prompt = Inr ''Error generating SQL: quota exceeded''"
  by (simp add: model_answer_def echoing_model_def)

lemma strip_echo:
  "strip ''Error generating SQL: quota exceeded'' = ''Error generating SQL: quota exceeded''"
  by (simp add: strip_def py_isspace_def)

theorem error_prefixed_answer_not_executed_witness:
  "model_answer echoing_model (prompt_of (fetched_schema echoing_model) ''List all customers'') =
     Inr ''Error generating SQL: quota exceeded'' \<and>
   startswith (strip ''Error generating SQL: quota exceeded'') ''Error'' \<and>
   (\<exists>s1. main_submit echoing_model True ''List all customers'' True start =
           (Inr (), s1\<lparr>trace := trace s1 @
              [StError (Str ''Error generating SQL: quota exceeded'')]\<rparr>))"
proof -
  have q: "''List all customers'' \<noteq> []" by simp
  have pre: "startswith (strip ''Error generating SQL: quota exceeded'') ''Error''"
    by (simp add: strip_echo startswith_def)
  from error_prefixed_answer_not_executed [OF q model_answer_echoing pre, of start True]
  show ?thesis using pre by (auto simp: model_answer_echoing strip_echo)
qed

section \<open>Connections\<close>

text \<open>
  C6 says that every call of \<^verbatim>\<open>get_db_schema\<close> and of \<^verbatim>\<open>execute_query\<close> closes the connection
  it opened before it returns, also when it ends in an error. The calls below end in an
  error after the connection is open: a statement the database rejects, and a catalogue
  query it rejects. Both return their error value and leave connection 0 open, since
  \<^verbatim>\<open>conn.close()\<close> stands only on the path without exception.
\<close>

theorem connection_left_open_on_error:
  "open_conns start = {} \<and>
   fst (execute_query shop ''SELEC 1'' start) =
     Inr (False, Str ''Error executing query: syntax error'') \<and>
   open_conns (snd (execute_query shop ''SELEC 1'' start)) = {0} \<and>
   fst (get_db_schema broken_catalog start) = Inr ''Error fetching schema'' \<and>
   open_conns (snd (get_db_schema broken_catalog start)) = {0}"
  by (simp add: start_def execute_query_def get_db_schema_def py_try_def py_bind_def
        psycopg2_connect_apply pd_read_sql_query_apply conn_cursor_apply cursor_execute_apply
        logger_error_apply py_return_def shop_def broken_catalog_def)

text \<open>On the path without exception the connection is closed.\<close>

lemma execute_query_closes_on_success:
  assumes "statement_result w sql_query = Inr results" and "next_conn s \<notin> open_conns s"
  shows "open_conns (snd (execute_query w sql_query s)) = open_conns s"
  using assms
  by (simp add: execute_query_def statement_result_def py_try_def py_bind_def
        psycopg2_connect_apply pd_read_sql_query_apply conn_close_apply py_return_def
        split: option.splits sum.splits)

end
